theory Spec2Isabelle
  imports Main "HOL-Library.Sublist"
begin

section \<open>Strings and the console\<close>

text \<open>
  Text is a \<open>string\<close>: the bytes of its UTF-8 form. \<open>LF\<close> is the line feed,
  \<open>dq\<close> the double quote and \<open>bs\<close> the backslash. In a string literal of this theory
  \<open>\034\<close> stands for the double quote.

  Node's \<open>console.log(x)\<close> and \<open>console.error(x)\<close>, called with one string, write the
  string followed by one line feed to standard output and to standard error.
\<close>

definition LF :: char where
  "LF = CHR 0x0A"

definition dq :: char where
  "dq = CHR 0x22"

definition bs :: char where
  "bs = CHR 0x5C"

definition console_log :: "string \<Rightarrow> string" where
  "console_log x = x @ [LF]"

definition console_error :: "string \<Rightarrow> string" where
  "console_error x = x @ [LF]"

section \<open>The environment of the two processes\<close>

text \<open>
  What \<open>init-demo.js\<close> and \<open>server.js\<close> read from outside themselves, each a library
  call of the source taken as it is:
  \<^item> \<open>cwd\<close>: \<open>process.cwd()\<close>;
  \<^item> \<open>path_resolve\<close>: \<open>path.resolve\<close> on two arguments;
  \<^item> \<open>existsSync\<close>: \<open>fs.existsSync\<close>;
  \<^item> \<open>readFile\<close>: what \<open>fs.readFile(p, 'utf8', callback)\<close> hands to its callback,
    \<open>Inl\<close> the \<open>err.message\<close> or \<open>Inr\<close> the decoded \<open>data\<close>;
  \<^item> \<open>chalk_red\<close>: \<open>chalk.red\<close>, which colours a string when colours are enabled;
  \<^item> \<open>spawn_failure\<close>: the text of the error \<open>child_process.exec\<close> reports when the
    shell cannot be launched, \<open>None\<close> when it can.
\<close>

record env =
  cwd :: string
  path_resolve :: "string \<Rightarrow> string \<Rightarrow> string"
  existsSync :: "string \<Rightarrow> bool"
  readFile :: "string \<Rightarrow> string + string"
  chalk_red :: "string \<Rightarrow> string"
  spawn_failure :: "string option"

section \<open>init-demo.js\<close>

text \<open>
  The terminal states of the script, and the calls it makes that touch the file system
  or the working directory, in the order it makes them.
\<close>

datatype outcome = Success | MissingArgument | NotFound | ReadError

datatype fs_call = Cwd | Resolve string string | ExistsSync string | ReadFile string

record proc_result =
  exit_status :: nat
  stdout_text :: string
  stderr_text :: string
  outcome :: outcome
  fs_calls :: "fs_call list"

text \<open>
  \<open>console.error(chalk.red(msg)); process.exit(1);\<close>: the three failure branches end so.
\<close>

definition error_exit :: "env \<Rightarrow> outcome \<Rightarrow> string \<Rightarrow> fs_call list \<Rightarrow> proc_result" where
  "error_exit e k msg calls =
     \<lparr>exit_status = 1, stdout_text = [], stderr_text = console_error (chalk_red e msg),
      outcome = k, fs_calls = calls\<rparr>"

definition no_file_msg :: string where
  "no_file_msg = ''Error: No file path provided. Use -f <path> to specify the file.''"

definition not_found_msg :: "string \<Rightarrow> string" where
  "not_found_msg filePath = ''Error: File not found at path \034'' @ filePath @ ''\034''"

definition read_error_msg :: "string \<Rightarrow> string" where
  "read_error_msg message = ''Error reading file: '' @ message"

text \<open>
  The script from \<open>const options = program.opts()\<close> on. Its input is \<open>options.file\<close> as
  commander leaves it: \<open>None\<close> (undefined) when neither \<open>-f\<close> nor \<open>--file\<close> was given,
  \<open>Some p\<close> when the flag was given with the argument \<open>p\<close>. \<open>!options.file\<close> holds of
  undefined and of the empty string. A run that reaches the end of the read callback
  leaves with status 0.
\<close>

fun init_demo :: "env \<Rightarrow> string option \<Rightarrow> proc_result" where
  "init_demo e None = error_exit e MissingArgument no_file_msg []"
| "init_demo e (Some file) =
     (if file = [] then error_exit e MissingArgument no_file_msg []
      else
        let filePath = path_resolve e (cwd e) file in
        if \<not> existsSync e filePath then
          error_exit e NotFound (not_found_msg filePath)
            [Cwd, Resolve (cwd e) file, ExistsSync filePath]
        else
          (case readFile e filePath of
             Inl message \<Rightarrow>
               error_exit e ReadError (read_error_msg message)
                 [Cwd, Resolve (cwd e) file, ExistsSync filePath, ReadFile filePath]
           | Inr data \<Rightarrow>
               \<lparr>exit_status = 0, stdout_text = console_log data, stderr_text = [],
                outcome = Success,
                fs_calls = [Cwd, Resolve (cwd e) file, ExistsSync filePath, ReadFile filePath]\<rparr>))"

text \<open>
  The script as the application installs it. The package.json of the README declares
  chalk \<open>^5.3.0\<close>, which is published as an ES module only; \<open>init-demo.js\<close> loads it
  with \<open>require\<close>, and what it then holds has no function \<open>red\<close>. Each of the three
  calls \<open>chalk.red(msg)\<close> throws a TypeError that nothing catches: \<open>console.error\<close> is
  never reached, Node writes its report of the exception to standard error and leaves
  with status 1. \<open>uncaught\<close> gives that report for the place of the call. The branch
  that prints the content calls nothing of chalk.
\<close>

definition uncaught_exit :: "string \<Rightarrow> outcome \<Rightarrow> fs_call list \<Rightarrow> proc_result" where
  "uncaught_exit report k calls =
     \<lparr>exit_status = 1, stdout_text = [], stderr_text = report, outcome = k, fs_calls = calls\<rparr>"

fun init_demo_esm_chalk :: "(string \<Rightarrow> string) \<Rightarrow> env \<Rightarrow> string option \<Rightarrow> proc_result" where
  "init_demo_esm_chalk uncaught e None = uncaught_exit (uncaught ''init-demo.js:22'') MissingArgument []"
| "init_demo_esm_chalk uncaught e (Some file) =
     (if file = [] then uncaught_exit (uncaught ''init-demo.js:22'') MissingArgument []
      else
        let filePath = path_resolve e (cwd e) file in
        if \<not> existsSync e filePath then
          uncaught_exit (uncaught ''init-demo.js:31'') NotFound
            [Cwd, Resolve (cwd e) file, ExistsSync filePath]
        else
          (case readFile e filePath of
             Inl message \<Rightarrow>
               uncaught_exit (uncaught ''init-demo.js:38'') ReadError
                 [Cwd, Resolve (cwd e) file, ExistsSync filePath, ReadFile filePath]
           | Inr data \<Rightarrow>
               \<lparr>exit_status = 0, stdout_text = console_log data, stderr_text = [],
                outcome = Success,
                fs_calls = [Cwd, Resolve (cwd e) file, ExistsSync filePath, ReadFile filePath]\<rparr>))"

text \<open>
  A styling function keeps its text when the styled string still holds the string it was
  given: \<open>chalk.red\<close> with colours off returns its argument, and with colours on it
  puts the escape codes of the colour around it.
\<close>

definition keeps_text :: "(string \<Rightarrow> string) \<Rightarrow> bool" where
  "keeps_text f \<longleftrightarrow> (\<forall>s. sublist s (f s))"

section \<open>JSON.stringify\<close>

text \<open>
  The objects \<open>server.js\<close> hands to \<open>res.json\<close> are built of strings and objects only;
  an object keeps its members in the order the literal lists them. \<open>res.json\<close> sends
  \<open>JSON.stringify\<close> of the object (Express's defaults: no replacer, no indentation).
  \<open>quote\<close> is the quoting \<open>JSON.stringify\<close> applies to a string: the double quote and the
  backslash are escaped, the control characters below 0x20 are written with their short
  escapes or as \<open>\u00XX\<close>, and every other character stands for itself.
\<close>

datatype json = JString string | JObject "(string \<times> json) list"

definition hex_digit :: "nat \<Rightarrow> char" where
  "hex_digit n = ''0123456789abcdef'' ! (n mod 16)"

definition quote_char :: "char \<Rightarrow> string" where
  "quote_char c =
     (if c = dq then [bs, dq]
      else if c = bs then [bs, bs]
      else if c = CHR 0x08 then [bs, CHR ''b'']
      else if c = CHR 0x0C then [bs, CHR ''f'']
      else if c = LF then [bs, CHR ''n'']
      else if c = CHR 0x0D then [bs, CHR ''r'']
      else if c = CHR 0x09 then [bs, CHR ''t'']
      else if (of_char c :: nat) < 32 then
        [bs, CHR ''u'', CHR ''0'', CHR ''0'',
         hex_digit (of_char c div 16), hex_digit (of_char c mod 16)]
      else [c])"

definition quote :: "string \<Rightarrow> string" where
  "quote s = [dq] @ concat (map quote_char s) @ [dq]"

fun join :: "string \<Rightarrow> string list \<Rightarrow> string" where
  "join sep [] = []"
| "join sep [x] = x"
| "join sep (x # y # ys) = x @ sep @ join sep (y # ys)"

fun stringify :: "json \<Rightarrow> string" where
  "stringify (JString s) = quote s"
| "stringify (JObject ms) =
     ''{'' @ join '','' (map (\<lambda>(k, v). quote k @ '':'' @ stringify v) ms) @ ''}''"

definition field :: "json \<Rightarrow> string \<Rightarrow> json option" where
  "field j k = (case j of JString s \<Rightarrow> None | JObject ms \<Rightarrow> map_of ms k)"

text \<open>
  The exclusivity of an envelope: its status is \<open>success\<close> exactly when it has a
  \<open>data\<close> member and no \<open>error\<close> member, and \<open>error\<close> exactly when it has an \<open>error\<close>
  member and no \<open>data\<close> member.
\<close>

definition exclusive :: "json \<Rightarrow> bool" where
  "exclusive j \<longleftrightarrow>
     (field j ''status'' = Some (JString ''success'')
        \<longleftrightarrow> field j ''data'' \<noteq> None \<and> field j ''error'' = None)
     \<and> (field j ''status'' = Some (JString ''error'')
        \<longleftrightarrow> field j ''error'' \<noteq> None \<and> field j ''data'' = None)"

section \<open>server.js\<close>

text \<open>
  The three arguments \<open>child_process.exec\<close> gives its callback: \<open>error\<close> is \<open>None\<close> (null)
  when the command ran and left with status 0, otherwise the error as the template
  literal of the source prints it; \<open>stdout\<close> and \<open>stderr\<close> are the captured streams.
\<close>

record exec_result =
  error :: "string option"
  stdout :: string
  stderr :: string

definition command :: string where
  "command = ''npm run init-demo --silent -- -f sample.txt''"

text \<open>
  The npm script \<open>init-demo\<close> of package.json is \<open>node init-demo.js\<close>; the words after
  \<open>--\<close> are handed to it, so commander sets \<open>options.file\<close> to \<open>sample.txt\<close>. With
  \<open>--silent\<close> npm adds nothing to the streams and leaves with the script's status.
\<close>

definition npm_run_init_demo :: "env \<Rightarrow> proc_result" where
  "npm_run_init_demo e = init_demo e (Some ''sample.txt'')"

text \<open>
  \<open>exec\<close> for a command whose run by the shell is \<open>child\<close>: the error is set when the shell
  cannot be launched and when the child leaves with a status other than 0. The source
  sets no timeout; the bound \<open>exec\<close> puts on the size of the captured streams
  (\<open>maxBuffer\<close>, one mebibyte unless set) is not part of the model, whose streams are
  taken to stay below it.
\<close>

definition exec :: "env \<Rightarrow> string \<Rightarrow> proc_result \<Rightarrow> exec_result" where
  "exec e cmd child =
     (case spawn_failure e of
        Some m \<Rightarrow> \<lparr>error = Some m, stdout = [], stderr = []\<rparr>
      | None \<Rightarrow>
          \<lparr>error =
             (if exit_status child = 0 then None
              else Some (''Error: Command failed: '' @ cmd @ [LF] @ stderr_text child)),
           stdout = stdout_text child, stderr = stderr_text child\<rparr>)"

text \<open>
  What handling one request does: the commands given to \<open>exec\<close>, the calls
  \<open>res.status(code).json(object)\<close> in order, and the text written to the server's console.
  The callback itself gives \<open>exec\<close> nothing; the handler around it gives the one command.
\<close>

record handled =
  executed :: "string list"
  sent :: "(nat \<times> json) list"
  console_out :: string
  console_err :: string

definition error_envelope :: "string \<Rightarrow> json" where
  "error_envelope details =
     JObject [(''status'', JString ''error''),
              (''error'', JObject [(''message'', JString ''npm script execution failed''),
                                   (''details'', JString details)])]"

definition success_envelope :: "string \<Rightarrow> json" where
  "success_envelope output =
     JObject [(''status'', JString ''success''),
              (''data'', JObject [(''output'', JString output)])]"

text \<open>The callback given to \<open>exec\<close>; the error branch returns after its response.\<close>

definition exec_callback :: "exec_result \<Rightarrow> handled" where
  "exec_callback r =
     (case error r of
        Some err \<Rightarrow>
          \<lparr>executed = [], sent = [(500, error_envelope (stderr r))], console_out = [],
           console_err = console_error (''Error executing npm script: '' @ err)\<rparr>
      | None \<Rightarrow>
          \<lparr>executed = [], sent = [(200, success_envelope (stdout r))],
           console_out = console_log (''npm script output: '' @ stdout r),
           console_err = []\<rparr>)"

text \<open>
  A request as the client sends it. The handler of \<open>app.get('/')\<close> takes \<open>req\<close> and reads
  nothing of it.
\<close>

record request =
  headers :: "(string \<times> string) list"
  query :: string
  payload :: string

definition get_root :: "env \<Rightarrow> request \<Rightarrow> handled" where
  "get_root e req =
     (exec_callback (exec e command (npm_run_init_demo e)))\<lparr>executed := [command]\<rparr>"

record response =
  status_code :: nat
  body :: string

definition response_of :: "nat \<times> json \<Rightarrow> response" where
  "response_of cj = \<lparr>status_code = fst cj, body = stringify (snd cj)\<rparr>"

definition responses :: "handled \<Rightarrow> response list" where
  "responses h = map response_of (sent h)"





text \<open>
  The server over time: the environment it runs in and the two console streams it has
  written so far. \<open>step\<close> handles one request, \<open>serve\<close> a sequence of them.
\<close>

record server_state =
  world :: env
  log_out :: string
  log_err :: string

definition step :: "server_state \<Rightarrow> request \<Rightarrow> handled \<times> server_state" where
  "step s req =
     (let h = get_root (world s) req in
      (h, s\<lparr>log_out := log_out s @ console_out h, log_err := log_err s @ console_err h\<rparr>))"

fun serve :: "server_state \<Rightarrow> request list \<Rightarrow> handled list \<times> server_state" where
  "serve s [] = ([], s)"
| "serve s (req # reqs) =
     (let (h, s1) = step s req; (hs, s2) = serve s1 reqs in (h # hs, s2))"

section \<open>Example environments\<close>

text \<open>
  The application directory of the Dockerfile, holding \<open>sample.txt\<close> with the given
  content and nothing else; names are resolved by joining them to the directory, colours
  are off and the shell can be launched. \<open>bare_env\<close> is the same directory without the
  file, \<open>locked_env\<close> has the file but reading it fails, and \<open>no_shell_env\<close> cannot
  launch the shell.
\<close>

definition sample_env :: "string \<Rightarrow> env" where
  "sample_env content =
     \<lparr>cwd = ''/usr/src/app'',
      path_resolve = (\<lambda>dir name. dir @ ''/'' @ name),
      existsSync = (\<lambda>p. p = ''/usr/src/app/sample.txt''),
      readFile = (\<lambda>p. if p = ''/usr/src/app/sample.txt'' then Inr content
                       else Inl ''ENOENT: no such file or directory''),
      chalk_red = (\<lambda>s. s),
      spawn_failure = None\<rparr>"

definition bare_env :: env where
  "bare_env = (sample_env [])\<lparr>existsSync := (\<lambda>p. False),
     readFile := (\<lambda>p. Inl ''ENOENT: no such file or directory'')\<rparr>"

definition locked_env :: env where
  "locked_env = (sample_env [])\<lparr>readFile := (\<lambda>p. Inl ''EACCES: permission denied'')\<rparr>"

definition no_shell_env :: env where
  "no_shell_env = (sample_env [])\<lparr>spawn_failure := Some ''Error: spawn /bin/sh ENOENT''\<rparr>"

definition sample_text :: string where
  "sample_text = ''This is a sample demo file.\<newline>''"

definition plain_request :: request where
  "plain_request = \<lparr>headers = [], query = [], payload = []\<rparr>"

definition curl_request :: request where
  "curl_request =
     \<lparr>headers = [(''user-agent'', ''curl/8.5.0''), (''x-file'', ''/etc/passwd'')],
      query = ''file=/etc/passwd'', payload = ''{\034file\034:\034/etc/passwd\034}''\<rparr>"


definition type_error_report :: "string \<Rightarrow> string" where
  "type_error_report position =
     ''/usr/src/app/'' @ position @ [LF] @ ''TypeError: chalk.red is not a function'' @ [LF]"

section \<open>Properties of init-demo.js\<close>

text \<open>The script branch by branch, without the local binding of \<open>filePath\<close>.\<close>

lemma init_demo_not_found:
  "file \<noteq> [] \<Longrightarrow> \<not> existsSync e (path_resolve e (cwd e) file) \<Longrightarrow>
   init_demo e (Some file)
     = error_exit e NotFound (not_found_msg (path_resolve e (cwd e) file))
         [Cwd, Resolve (cwd e) file, ExistsSync (path_resolve e (cwd e) file)]"
  by (simp add: Let_def)

lemma init_demo_read_error:
  "file \<noteq> [] \<Longrightarrow> existsSync e (path_resolve e (cwd e) file) \<Longrightarrow>
   readFile e (path_resolve e (cwd e) file) = Inl message \<Longrightarrow>
   init_demo e (Some file)
     = error_exit e ReadError (read_error_msg message)
         [Cwd, Resolve (cwd e) file, ExistsSync (path_resolve e (cwd e) file),
          ReadFile (path_resolve e (cwd e) file)]"
  by (simp add: Let_def)

lemma init_demo_success:
  "file \<noteq> [] \<Longrightarrow> existsSync e (path_resolve e (cwd e) file) \<Longrightarrow>
   readFile e (path_resolve e (cwd e) file) = Inr data \<Longrightarrow>
   init_demo e (Some file)
     = \<lparr>exit_status = 0, stdout_text = console_log data, stderr_text = [],
        outcome = Success,
        fs_calls = [Cwd, Resolve (cwd e) file, ExistsSync (path_resolve e (cwd e) file),
                    ReadFile (path_resolve e (cwd e) file)]\<rparr>"
  by (simp add: Let_def)

declare init_demo.simps(2) [simp del]

lemma sublist_not_found_msg: "sublist p (not_found_msg p)"
  unfolding not_found_msg_def by (rule sublist_appendI)

text \<open>
  C1 (as the claim states it, refuted). The sample file holds the text
  \<open>This is a sample demo file.\<close> and a line feed; it exists and is read without error,
  and yet standard output is not the content of the file: \<open>console.log\<close> has added a
  line feed to it.
\<close>

theorem C1_counterexample:
  "existsSync (sample_env sample_text) (path_resolve (sample_env sample_text) (cwd (sample_env sample_text)) ''sample.txt'')
   \<and> readFile (sample_env sample_text) (path_resolve (sample_env sample_text) (cwd (sample_env sample_text)) ''sample.txt'') = Inr sample_text
   \<and> stdout_text (init_demo (sample_env sample_text) (Some ''sample.txt'')) \<noteq> sample_text
   \<and> stdout_text (init_demo (sample_env sample_text) (Some ''sample.txt''))
       = ''This is a sample demo file.\<newline>\<newline>''"
  by (simp add: init_demo.simps sample_env_def sample_text_def console_log_def Let_def LF_def)

text \<open>
  C1 (amended). For every path argument that is not empty and resolves to an existing
  file that is read without error, the script leaves with status 0, standard output is
  the decoded content of the file followed by exactly one line feed (the one
  \<open>console.log\<close> appends), nothing of the content is removed or changed, and standard
  error is empty.
\<close>

theorem C1_stdout_is_content_and_line_feed:
  assumes "file \<noteq> []"
    and "existsSync e (path_resolve e (cwd e) file)"
    and "readFile e (path_resolve e (cwd e) file) = Inr data"
  shows "exit_status (init_demo e (Some file)) = 0
    \<and> stdout_text (init_demo e (Some file)) = data @ [LF]
    \<and> stderr_text (init_demo e (Some file)) = []
    \<and> outcome (init_demo e (Some file)) = Success"
  using assms by (simp add: init_demo_success console_log_def)

text \<open>The amended C1 at the sample file.\<close>

theorem C1_witness:
  "exit_status (init_demo (sample_env sample_text) (Some ''sample.txt'')) = 0
   \<and> stdout_text (init_demo (sample_env sample_text) (Some ''sample.txt'')) = sample_text @ [LF]"
  using C1_stdout_is_content_and_line_feed
          [of "''sample.txt''" "sample_env sample_text" sample_text]
  by (simp add: sample_env_def)

text \<open>
  The branch of the missing file, given a chalk whose \<open>red\<close> is a function. For every
  path argument \<open>file\<close> whose resolved absolute form does not exist, the script leaves
  with status 1, writes nothing to standard output, and writes to standard error the
  styled message \<open>Error: File not found at path "<resolved path>"\<close> and a line feed.
  The message holds the resolved path, and so does standard error whenever the styling
  keeps its text. (The empty argument never reaches the resolution; resolved, it would
  be the working directory itself.)
\<close>

lemma missing_path_with_styling:
  assumes "file \<noteq> []"
    and "\<not> existsSync e (path_resolve e (cwd e) file)"
  shows "exit_status (init_demo e (Some file)) = 1
    \<and> exit_status (init_demo e (Some file)) \<noteq> 0
    \<and> stdout_text (init_demo e (Some file)) = []
    \<and> stderr_text (init_demo e (Some file))
        = console_error (chalk_red e (not_found_msg (path_resolve e (cwd e) file)))
    \<and> sublist (path_resolve e (cwd e) file) (not_found_msg (path_resolve e (cwd e) file))
    \<and> (keeps_text (chalk_red e) \<longrightarrow>
          sublist (path_resolve e (cwd e) file) (stderr_text (init_demo e (Some file))))
    \<and> outcome (init_demo e (Some file)) = NotFound"
proof -
  let ?p = "path_resolve e (cwd e) file"
  have r: "init_demo e (Some file)
      = error_exit e NotFound (not_found_msg ?p) [Cwd, Resolve (cwd e) file, ExistsSync ?p]"
    using assms by (rule init_demo_not_found)
  have inner: "sublist ?p (not_found_msg ?p)"
    by (rule sublist_not_found_msg)
  have styled: "sublist ?p (console_error (chalk_red e (not_found_msg ?p)))"
    if "keeps_text (chalk_red e)"
  proof -
    from that have "sublist (not_found_msg ?p) (chalk_red e (not_found_msg ?p))"
      by (simp add: keeps_text_def)
    with inner have "sublist ?p (chalk_red e (not_found_msg ?p))"
      by (rule sublist_order.order_trans)
    moreover have "sublist (chalk_red e (not_found_msg ?p))
        (console_error (chalk_red e (not_found_msg ?p)))"
      unfolding console_error_def by (rule sublist_append_rightI)
    ultimately show ?thesis
      by (rule sublist_order.order_trans)
  qed
  show ?thesis
    unfolding r using inner styled by (simp add: error_exit_def)
qed

text \<open>The same in the application directory without \<open>sample.txt\<close>, colours off.\<close>

lemma missing_path_with_styling_example:
  "exit_status (init_demo bare_env (Some ''sample.txt'')) = 1
   \<and> stdout_text (init_demo bare_env (Some ''sample.txt'')) = []
   \<and> stderr_text (init_demo bare_env (Some ''sample.txt''))
       = ''Error: File not found at path \034/usr/src/app/sample.txt\034\<newline>''
   \<and> sublist ''/usr/src/app/sample.txt'' (stderr_text (init_demo bare_env (Some ''sample.txt'')))"
proof -
  have k: "keeps_text (\<lambda>s. s)"
    by (simp add: keeps_text_def)
  have m: "\<not> existsSync bare_env (path_resolve bare_env (cwd bare_env) ''sample.txt'')"
    by (simp add: bare_env_def)
  have p: "path_resolve bare_env (cwd bare_env) ''sample.txt'' = ''/usr/src/app/sample.txt''"
    by (simp add: bare_env_def sample_env_def)
  have c: "chalk_red bare_env = (\<lambda>s. s)"
    by (simp add: bare_env_def sample_env_def)
  have n: "''sample.txt'' \<noteq> []"
    by simp
  note t = missing_path_with_styling [OF n m, unfolded p c]
  from t k have "sublist ''/usr/src/app/sample.txt''
      (stderr_text (init_demo bare_env (Some ''sample.txt'')))"
    by blast
  moreover from t have "stderr_text (init_demo bare_env (Some ''sample.txt''))
      = ''Error: File not found at path \034/usr/src/app/sample.txt\034\<newline>''"
    by (simp add: console_error_def not_found_msg_def LF_def)
  ultimately show ?thesis
    using t by simp
qed

text \<open>
  C4 (the run that breaks it). In the application directory without \<open>sample.txt\<close>, with
  chalk as package.json declares it, \<open>-f sample.txt\<close> names a path whose resolved form
  \<open>/usr/src/app/sample.txt\<close> does not exist. The script leaves with status 1 and
  writes nothing to standard output, but standard error is Node's report of the
  TypeError thrown at line 31: the message with the resolved path is never written,
  standard error does not hold the path, and it is the same for another missing name.
\<close>

theorem C4_failing_run:
  "\<not> existsSync bare_env (path_resolve bare_env (cwd bare_env) ''sample.txt'')
   \<and> path_resolve bare_env (cwd bare_env) ''sample.txt'' = ''/usr/src/app/sample.txt''
   \<and> exit_status (init_demo_esm_chalk type_error_report bare_env (Some ''sample.txt'')) = 1
   \<and> stdout_text (init_demo_esm_chalk type_error_report bare_env (Some ''sample.txt'')) = []
   \<and> stderr_text (init_demo_esm_chalk type_error_report bare_env (Some ''sample.txt''))
       = ''/usr/src/app/init-demo.js:31\<newline>TypeError: chalk.red is not a function\<newline>''
   \<and> \<not> sublist ''/usr/src/app/sample.txt''
         (stderr_text (init_demo_esm_chalk type_error_report bare_env (Some ''sample.txt'')))
   \<and> stderr_text (init_demo_esm_chalk type_error_report bare_env (Some ''other.txt''))
       = stderr_text (init_demo_esm_chalk type_error_report bare_env (Some ''sample.txt''))"
proof -
  have r: "init_demo_esm_chalk type_error_report bare_env (Some ''sample.txt'')
      = uncaught_exit (type_error_report ''init-demo.js:31'') NotFound
          [Cwd, Resolve ''/usr/src/app'' ''sample.txt'', ExistsSync ''/usr/src/app/sample.txt'']"
    by (simp add: bare_env_def sample_env_def Let_def)
  have r': "init_demo_esm_chalk type_error_report bare_env (Some ''other.txt'')
      = uncaught_exit (type_error_report ''init-demo.js:31'') NotFound
          [Cwd, Resolve ''/usr/src/app'' ''other.txt'', ExistsSync ''/usr/src/app/other.txt'']"
    by (simp add: bare_env_def sample_env_def Let_def)
  have t: "type_error_report ''init-demo.js:31''
      = ''/usr/src/app/init-demo.js:31\<newline>TypeError: chalk.red is not a function\<newline>''"
    by (simp add: type_error_report_def LF_def)
  have n: "\<not> sublist ''/usr/src/app/sample.txt''
      ''/usr/src/app/init-demo.js:31\<newline>TypeError: chalk.red is not a function\<newline>''"
    by code_simp
  show ?thesis
    unfolding r r' using n
    by (simp add: uncaught_exit_def t) (simp add: bare_env_def sample_env_def)
qed

text \<open>
  C5. With neither \<open>-f\<close> nor \<open>--file\<close> the script leaves with status 1 and the usage
  message on standard error, having made no call that resolves a path, checks existence
  or reads a file: its list of such calls is empty, and the whole result is the same in
  every working directory and file system.
\<close>

theorem C5_no_flag_fails_before_file_system:
  "exit_status (init_demo e None) = 1
   \<and> exit_status (init_demo e None) \<noteq> 0
   \<and> outcome (init_demo e None) = MissingArgument
   \<and> stderr_text (init_demo e None) = console_error (chalk_red e no_file_msg)
   \<and> stderr_text (init_demo e None) \<noteq> []
   \<and> stdout_text (init_demo e None) = []
   \<and> fs_calls (init_demo e None) = []
   \<and> init_demo (e\<lparr>cwd := c, path_resolve := r, existsSync := x, readFile := f\<rparr>) None
       = init_demo e None"
  by (simp add: error_exit_def console_error_def)


text \<open>
  C8. Given \<open>-f\<close> with the empty string as its argument, the script does exactly what it
  does when the flag is left out: it takes the branch of the missing argument, writes the
  usage message to standard error, leaves with status 1, and resolves nothing against the
  working directory.
\<close>

theorem C8_empty_path_is_missing_argument:
  "init_demo e (Some []) = init_demo e None
   \<and> outcome (init_demo e (Some [])) = MissingArgument
   \<and> exit_status (init_demo e (Some [])) = 1
   \<and> stderr_text (init_demo e (Some [])) = console_error (chalk_red e no_file_msg)
   \<and> stdout_text (init_demo e (Some [])) = []
   \<and> fs_calls (init_demo e (Some [])) = []"
  by (simp add: init_demo.simps error_exit_def)

section \<open>Properties of server.js\<close>

text \<open>The serialised envelopes, the callback branch by branch, and \<open>exec\<close> case by case.\<close>

lemma stringify_success_envelope:
  "stringify (success_envelope out)
     = ''{\034status\034:\034success\034,\034data\034:{\034output\034:'' @ quote out @ ''}}''"
  by (simp add: success_envelope_def quote_def quote_char_def dq_def bs_def LF_def)

lemma stringify_error_envelope:
  "stringify (error_envelope details)
     = ''{\034status\034:\034error\034,\034error\034:{\034message\034:\034npm script execution failed\034,\034details\034:''
       @ quote details @ ''}}''"
  by (simp add: error_envelope_def quote_def quote_char_def dq_def bs_def LF_def)

lemma quote_sample_text_LF:
  "quote (sample_text @ [LF])
     = ''\034This is a sample demo file.'' @ [bs, CHR ''n'', bs, CHR ''n''] @ ''\034''"
  by (simp add: sample_text_def quote_def quote_char_def dq_def bs_def LF_def)

lemma exec_callback_error:
  "error r = Some x \<Longrightarrow>
   exec_callback r
     = \<lparr>executed = [], sent = [(500, error_envelope (stderr r))], console_out = [],
        console_err = console_error (''Error executing npm script: '' @ x)\<rparr>"
  by (simp add: exec_callback_def)

lemma exec_callback_ok:
  "error r = None \<Longrightarrow>
   exec_callback r
     = \<lparr>executed = [], sent = [(200, success_envelope (stdout r))],
        console_out = console_log (''npm script output: '' @ stdout r), console_err = []\<rparr>"
  by (simp add: exec_callback_def)

lemma sent_get_root:
  "sent (get_root e req) = sent (exec_callback (exec e command (npm_run_init_demo e)))"
  by (simp add: get_root_def)

lemma get_root_sample_file:
  assumes "spawn_failure e = None"
    and "existsSync e (path_resolve e (cwd e) ''sample.txt'')"
    and "readFile e (path_resolve e (cwd e) ''sample.txt'') = Inr content"
  shows "sent (get_root e req) = [(200, success_envelope (content @ [LF]))]"
proof -
  have "npm_run_init_demo e
      = \<lparr>exit_status = 0, stdout_text = console_log content, stderr_text = [],
         outcome = Success,
         fs_calls = [Cwd, Resolve (cwd e) ''sample.txt'',
                     ExistsSync (path_resolve e (cwd e) ''sample.txt''),
                     ReadFile (path_resolve e (cwd e) ''sample.txt'')]\<rparr>"
    unfolding npm_run_init_demo_def using assms(2,3) by (intro init_demo_success) simp_all
  then have "exec e command (npm_run_init_demo e)
      = \<lparr>error = None, stdout = content @ [LF], stderr = []\<rparr>"
    using assms(1) by (simp add: exec_def console_log_def)
  then show ?thesis
    by (simp add: sent_get_root exec_callback_ok)
qed

lemma exec_spawn_failure:
  "spawn_failure e = Some m \<Longrightarrow> exec e cmd child = \<lparr>error = Some m, stdout = [], stderr = []\<rparr>"
  by (simp add: exec_def)

lemma exec_nonzero:
  "spawn_failure e = None \<Longrightarrow> exit_status child \<noteq> 0 \<Longrightarrow>
   exec e cmd child
     = \<lparr>error = Some (''Error: Command failed: '' @ cmd @ [LF] @ stderr_text child),
        stdout = stdout_text child, stderr = stderr_text child\<rparr>"
  by (simp add: exec_def)

lemma failure_exit_status:
  "outcome (init_demo e file) \<noteq> Success \<Longrightarrow> exit_status (init_demo e file) = 1"
proof (cases "file")
  case None
  then show ?thesis by (simp add: error_exit_def)
next
  case (Some p)
  assume f: "outcome (init_demo e file) \<noteq> Success"
  show ?thesis
  proof (cases "p = []")
    case True
    with Some show ?thesis by (simp add: init_demo.simps error_exit_def)
  next
    case nonempty: False
    show ?thesis
    proof (cases "existsSync e (path_resolve e (cwd e) p)")
      case False
      with nonempty Some show ?thesis by (simp add: init_demo_not_found error_exit_def)
    next
      case exists: True
      show ?thesis
      proof (cases "readFile e (path_resolve e (cwd e) p)")
        case (Inl message)
        with nonempty exists Some show ?thesis
          by (simp add: init_demo_read_error error_exit_def)
      next
        case (Inr data)
        with nonempty exists Some f show ?thesis
          by (simp add: init_demo_success)
      qed
    qed
  qed
qed

lemma get_root_ignores_request: "get_root e req1 = get_root e req2"
  by (simp add: get_root_def)

lemma world_step: "world (snd (step s req)) = world s"
  by (simp add: step_def Let_def)

lemma fst_step: "fst (step s req) = get_root (world s) req"
  by (simp add: step_def Let_def)

lemma serve_Cons:
  "serve s (req # reqs)
     = (fst (step s req) # fst (serve (snd (step s req)) reqs),
        snd (serve (snd (step s req)) reqs))"
  by (simp add: case_prod_beta)

lemma world_serve: "world (snd (serve s reqs)) = world s"
proof (induction reqs arbitrary: s)
  case Nil
  show ?case by simp
next
  case (Cons req reqs)
  have "world (snd (serve s (req # reqs))) = world (snd (serve (snd (step s req)) reqs))"
    by (simp only: serve_Cons snd_conv)
  also have "\<dots> = world (snd (step s req))"
    by (rule Cons.IH)
  also have "\<dots> = world s"
    by (rule world_step)
  finally show ?case .
qed

lemma fst_serve: "fst (serve s reqs) = map (get_root (world s)) reqs"
proof (induction reqs arbitrary: s)
  case Nil
  show ?case by simp
next
  case (Cons req reqs)
  have "fst (serve s (req # reqs)) = fst (step s req) # fst (serve (snd (step s req)) reqs)"
    by (simp only: serve_Cons fst_conv)
  also have "\<dots> = get_root (world s) req # map (get_root (world (snd (step s req)))) reqs"
    by (simp only: fst_step Cons.IH)
  also have "\<dots> = map (get_root (world s)) (req # reqs)"
    by (simp only: world_step list.map)
  finally show ?case .
qed

text \<open>
  C2 (as the claim states it, refuted). The sample file holds exactly
  \<open>This is a sample demo file.\<close> and a line feed, the shell can be launched, and the
  response to \<open>GET /\<close> is not the one the claim gives: its body does not carry the
  output \<open>This is a sample demo file.\n\<close>.
\<close>

theorem C2_counterexample:
  "spawn_failure (sample_env sample_text) = None
   \<and> readFile (sample_env sample_text)
        (path_resolve (sample_env sample_text) (cwd (sample_env sample_text)) ''sample.txt'')
       = Inr ''This is a sample demo file.\<newline>''
   \<and> responses (get_root (sample_env sample_text) plain_request)
       \<noteq> [\<lparr>status_code = 200,
            body = ''{\034status\034:\034success\034,\034data\034:{\034output\034:\034This is a sample demo file.''
                   @ [bs, CHR ''n''] @ ''\034}}''\<rparr>]"
proof -
  have "sent (get_root (sample_env sample_text) plain_request)
      = [(200, success_envelope (sample_text @ [LF]))]"
    by (rule get_root_sample_file) (simp_all add: sample_env_def)
  then have sent: "responses (get_root (sample_env sample_text) plain_request)
      = [\<lparr>status_code = 200,
           body = ''{\034status\034:\034success\034,\034data\034:{\034output\034:\034This is a sample demo file.''
                  @ [bs, CHR ''n'', bs, CHR ''n''] @ ''\034}}''\<rparr>]"
    by (simp add: responses_def response_of_def stringify_success_envelope
        quote_sample_text_LF)
  show ?thesis
    unfolding sent by (simp add: sample_env_def sample_text_def)
qed

text \<open>
  C2 (amended). When the sample file exists and holds exactly
  \<open>This is a sample demo file.\<close> and a line feed, and the shell can be launched, every
  \<open>GET /\<close> is answered with status 200 and the body
  \<open>{"status":"success","data":{"output":"This is a sample demo file.\n\n"}}\<close>: the
  output member is the content of the file followed by the line feed that
  \<open>console.log\<close> appends.
\<close>

theorem C2_sample_scenario:
  assumes "spawn_failure e = None"
    and "existsSync e (path_resolve e (cwd e) ''sample.txt'')"
    and "readFile e (path_resolve e (cwd e) ''sample.txt'') = Inr ''This is a sample demo file.\<newline>''"
  shows "responses (get_root e req)
       = [\<lparr>status_code = 200,
            body = ''{\034status\034:\034success\034,\034data\034:{\034output\034:\034This is a sample demo file.''
                   @ [bs, CHR ''n'', bs, CHR ''n''] @ ''\034}}''\<rparr>]
    \<and> sent (get_root e req)
       = [(200, JObject [(''status'', JString ''success''),
                         (''data'', JObject [(''output'',
                            JString ''This is a sample demo file.\<newline>\<newline>'')])])]"
proof -
  have "sent (get_root e req) = [(200, success_envelope (sample_text @ [LF]))]"
    using assms by (intro get_root_sample_file) (simp_all add: sample_text_def)
  then show ?thesis
    by (simp add: responses_def response_of_def stringify_success_envelope
        quote_sample_text_LF) (simp add: success_envelope_def sample_text_def LF_def)
qed

text \<open>The amended C2 in the application directory.\<close>

theorem C2_witness:
  "responses (get_root (sample_env sample_text) curl_request)
     = [\<lparr>status_code = 200,
          body = ''{\034status\034:\034success\034,\034data\034:{\034output\034:\034This is a sample demo file.''
                 @ [bs, CHR ''n'', bs, CHR ''n''] @ ''\034}}''\<rparr>]"
proof -
  have "spawn_failure (sample_env sample_text) = None"
    and "existsSync (sample_env sample_text)
          (path_resolve (sample_env sample_text) (cwd (sample_env sample_text)) ''sample.txt'')"
    and "readFile (sample_env sample_text)
          (path_resolve (sample_env sample_text) (cwd (sample_env sample_text)) ''sample.txt'')
         = Inr ''This is a sample demo file.\<newline>''"
    by (simp_all add: sample_env_def sample_text_def)
  then show ?thesis
    by (intro conjunct1 [OF C2_sample_scenario])
qed

text \<open>
  C3 (as the claim states it, refuted). Without \<open>sample.txt\<close> the script fails with the
  kind not found, \<open>exec\<close> reports an error, and the envelope sent is not the one whose
  message is \<open>script execution failed\<close>.
\<close>

theorem C3_counterexample:
  "outcome (npm_run_init_demo bare_env) = NotFound
   \<and> error (exec bare_env command (npm_run_init_demo bare_env)) \<noteq> None
   \<and> sent (get_root bare_env plain_request)
       \<noteq> [(500, JObject [(''status'', JString ''error''),
                          (''error'', JObject [(''message'', JString ''script execution failed''),
                             (''details'',
                              JString (stderr (exec bare_env command (npm_run_init_demo bare_env))))])])]"
  by (simp add: sent_get_root npm_run_init_demo_def init_demo_not_found bare_env_def
      sample_env_def error_exit_def exec_def exec_callback_def error_envelope_def)

text \<open>
  C3 (amended). Whenever \<open>exec\<close> reports an error, the callback answers with status 500
  and the envelope
  \<open>{"status":"error","error":{"message":"npm script execution failed","details":<captured stderr>}}\<close>.
  The status and the message are the same for every kind of failure: for each way the
  script can fail (missing argument, not found, read error) the details are what the
  script wrote to standard error, and when the shell cannot be launched they are empty.
\<close>

theorem C3_every_failure_is_the_same_500:
  "(error r \<noteq> None \<longrightarrow>
      sent (exec_callback r) = [(500, error_envelope (stderr r))]
      \<and> responses (exec_callback r)
          = [\<lparr>status_code = 500,
               body = ''{\034status\034:\034error\034,\034error\034:{\034message\034:\034npm script execution failed\034,\034details\034:''
                      @ quote (stderr r) @ ''}}''\<rparr>])
   \<and> (spawn_failure e = None \<and> outcome (init_demo e file) \<noteq> Success \<longrightarrow>
      sent (exec_callback (exec e cmd (init_demo e file)))
        = [(500, error_envelope (stderr_text (init_demo e file)))])
   \<and> (spawn_failure e \<noteq> None \<longrightarrow>
      sent (exec_callback (exec e cmd child)) = [(500, error_envelope [])])
   \<and> (spawn_failure e \<noteq> None \<or> outcome (npm_run_init_demo e) \<noteq> Success \<longrightarrow>
      sent (get_root e req)
        = [(500, error_envelope
                   (if spawn_failure e = None then stderr_text (npm_run_init_demo e) else []))])"
proof -
  have a: "sent (exec_callback r) = [(500, error_envelope (stderr r))]
      \<and> responses (exec_callback r)
          = [\<lparr>status_code = 500,
               body = ''{\034status\034:\034error\034,\034error\034:{\034message\034:\034npm script execution failed\034,\034details\034:''
                      @ quote (stderr r) @ ''}}''\<rparr>]"
    if "error r \<noteq> None"
  proof -
    from that obtain x where "error r = Some x"
      by blast
    then show ?thesis
      by (simp add: exec_callback_error responses_def response_of_def
          stringify_error_envelope)
  qed
  have b: "sent (exec_callback (exec e' cmd' (init_demo e' file')))
      = [(500, error_envelope (stderr_text (init_demo e' file')))]"
    if "spawn_failure e' = None" and "outcome (init_demo e' file') \<noteq> Success"
    for e' cmd' file'
  proof -
    from that(2) have "exit_status (init_demo e' file') \<noteq> 0"
      by (simp add: failure_exit_status)
    with that(1) show ?thesis
      by (simp add: exec_nonzero exec_callback_error)
  qed
  have c: "sent (exec_callback (exec e' cmd' child')) = [(500, error_envelope [])]"
    if "spawn_failure e' \<noteq> None" for e' cmd' child'
  proof -
    from that obtain m where "spawn_failure e' = Some m"
      by blast
    then show ?thesis
      by (simp add: exec_spawn_failure exec_callback_error)
  qed
  have d: "sent (get_root e req)
      = [(500, error_envelope
                 (if spawn_failure e = None then stderr_text (npm_run_init_demo e) else []))]"
    if "spawn_failure e \<noteq> None \<or> outcome (npm_run_init_demo e) \<noteq> Success"
  proof (cases "spawn_failure e = None")
    case True
    with that have "outcome (init_demo e (Some ''sample.txt'')) \<noteq> Success"
      by (simp add: npm_run_init_demo_def)
    with True show ?thesis
      by (simp add: sent_get_root npm_run_init_demo_def b)
  next
    case False
    then have "sent (get_root e req) = [(500, error_envelope [])]"
      by (simp add: sent_get_root c)
    with False show ?thesis
      by auto
  qed
  from a b c d show ?thesis
    by blast
qed

text \<open>
  The amended C3 at each kind of failure: the file is missing, the file cannot be read,
  the shell cannot be launched, the flag is left out, and an error handed to the
  callback directly.
\<close>

theorem C3_witness:
  "sent (get_root bare_env plain_request)
     = [(500, error_envelope
          ''Error: File not found at path \034/usr/src/app/sample.txt\034\<newline>'')]
   \<and> sent (get_root locked_env plain_request)
     = [(500, error_envelope ''Error reading file: EACCES: permission denied\<newline>'')]
   \<and> sent (get_root no_shell_env plain_request) = [(500, error_envelope [])]
   \<and> sent (exec_callback (exec bare_env command (init_demo bare_env None)))
     = [(500, error_envelope
          ''Error: No file path provided. Use -f <path> to specify the file.\<newline>'')]
   \<and> sent (exec_callback \<lparr>error = Some ''Error: spawn /bin/sh EAGAIN'', stdout = [], stderr = []\<rparr>)
     = [(500, error_envelope [])]"
proof -
  note t = C3_every_failure_is_the_same_500
  note t_callback = t [THEN conjunct1, rule_format]
  note t_kind = t [THEN conjunct2, THEN conjunct1, rule_format]
  note t_route = t [THEN conjunct2, THEN conjunct2, THEN conjunct2, rule_format]
  have bare: "spawn_failure bare_env = None"
    "outcome (npm_run_init_demo bare_env) = NotFound"
    "stderr_text (npm_run_init_demo bare_env)
       = ''Error: File not found at path \034/usr/src/app/sample.txt\034\<newline>''"
    "outcome (init_demo bare_env None) = MissingArgument"
    "stderr_text (init_demo bare_env None)
       = ''Error: No file path provided. Use -f <path> to specify the file.\<newline>''"
    by (simp_all add: npm_run_init_demo_def init_demo_not_found bare_env_def sample_env_def
        error_exit_def not_found_msg_def no_file_msg_def console_error_def LF_def)
  have locked: "spawn_failure locked_env = None"
    "outcome (npm_run_init_demo locked_env) = ReadError"
    "stderr_text (npm_run_init_demo locked_env)
       = ''Error reading file: EACCES: permission denied\<newline>''"
    by (simp_all add: npm_run_init_demo_def init_demo_read_error locked_env_def sample_env_def
        error_exit_def read_error_msg_def console_error_def LF_def)
  have no_shell: "spawn_failure no_shell_env \<noteq> None"
    by (simp add: no_shell_env_def)
  have 1: "sent (get_root bare_env plain_request)
     = [(500, error_envelope
          ''Error: File not found at path \034/usr/src/app/sample.txt\034\<newline>'')]"
    using t_route [of bare_env plain_request] by (simp only: bare) simp
  have 2: "sent (get_root locked_env plain_request)
     = [(500, error_envelope ''Error reading file: EACCES: permission denied\<newline>'')]"
    using t_route [of locked_env plain_request] by (simp only: locked) simp
  have 3: "sent (get_root no_shell_env plain_request) = [(500, error_envelope [])]"
    using t_route [of no_shell_env plain_request] no_shell by simp
  have 4: "sent (exec_callback (exec bare_env command (init_demo bare_env None)))
     = [(500, error_envelope
          ''Error: No file path provided. Use -f <path> to specify the file.\<newline>'')]"
    using t_kind [of bare_env None command] by (simp only: bare) simp
  have "error \<lparr>error = Some ''Error: spawn /bin/sh EAGAIN'', stdout = [], stderr = []\<rparr> \<noteq> None"
    by simp
  from t_callback [OF this]
  have 5: "sent (exec_callback \<lparr>error = Some ''Error: spawn /bin/sh EAGAIN'', stdout = [], stderr = []\<rparr>)
     = [(500, error_envelope [])]"
    by simp
  from 1 2 3 4 5 show ?thesis
    by blast
qed

text \<open>
  C7. Handling a request leaves the environment (the working directory and the file
  system the script reads) as it found it, so a second request is handled exactly as
  the first, and every request of any sequence gets the same response. What a request
  leaves behind is only its text on the server's two console streams.
\<close>

theorem C7_repeated_requests_same_response:
  "fst (step (snd (step s req1)) req2) = fst (step s req1)
   \<and> world (snd (step s req1)) = world s
   \<and> map responses (fst (serve s reqs))
       = replicate (length reqs) (responses (get_root (world s) req1))
   \<and> world (snd (serve s reqs)) = world s
   \<and> log_out (snd (step s req1)) = log_out s @ console_out (get_root (world s) req1)
   \<and> log_err (snd (step s req1)) = log_err s @ console_err (get_root (world s) req1)"
proof -
  have same: "get_root (world s) req = get_root (world s) req1" for req
    by (rule get_root_ignores_request)
  have "map (get_root (world s)) reqs = replicate (length reqs) (get_root (world s) req1)"
    by (induction reqs) (simp_all add: get_root_def)
  then have "map responses (fst (serve s reqs))
      = replicate (length reqs) (responses (get_root (world s) req1))"
    by (simp add: fst_serve)
  moreover have "fst (step (snd (step s req1)) req2) = fst (step s req1)"
    by (simp only: fst_step world_step same [of req2])
  moreover have "log_out (snd (step s req1)) = log_out s @ console_out (get_root (world s) req1)"
    and "log_err (snd (step s req1)) = log_err s @ console_err (get_root (world s) req1)"
    by (simp_all add: step_def Let_def)
  ultimately show ?thesis
    by (simp add: world_step world_serve)
qed

text \<open>
  C9. The callback sends exactly one response, and its envelope is exclusive: with
  status 200 its status member is \<open>success\<close>, with 500 it is \<open>error\<close>, and in both the
  \<open>data\<close> and \<open>error\<close> members are present and absent as the status says. So it is for
  every request handled.
\<close>

theorem C9_envelope_exclusive:
  "(\<exists>code j. sent (exec_callback r) = [(code, j)] \<and> exclusive j
       \<and> (code = 200 \<and> field j ''status'' = Some (JString ''success'')
          \<or> code = 500 \<and> field j ''status'' = Some (JString ''error'')))
   \<and> length (sent (get_root e req)) = 1
   \<and> exclusive (snd (hd (sent (get_root e req))))"
proof -
  have s: "exclusive (success_envelope out)" for out
    by (simp add: exclusive_def success_envelope_def field_def)
  have f: "exclusive (error_envelope details)" for details
    by (simp add: exclusive_def error_envelope_def field_def)
  have one: "(\<exists>code j. sent (exec_callback r') = [(code, j)] \<and> exclusive j
       \<and> (code = 200 \<and> field j ''status'' = Some (JString ''success'')
          \<or> code = 500 \<and> field j ''status'' = Some (JString ''error'')))" for r'
  proof (cases "error r'")
    case None
    then show ?thesis
      using s by (simp add: exec_callback_ok) (simp add: success_envelope_def field_def)
  next
    case (Some x)
    then show ?thesis
      using f by (simp add: exec_callback_error) (simp add: error_envelope_def field_def)
  qed
  from one [of "exec e command (npm_run_init_demo e)"]
  have "length (sent (get_root e req)) = 1 \<and> exclusive (snd (hd (sent (get_root e req))))"
    by (auto simp: sent_get_root)
  with one show ?thesis
    by blast
qed




end
